theory Spec2Isabelle
  imports Complex_Main
begin

section \<open>Numbers, durations and pitch\<close>

text \<open>
  The engine computes with JavaScript numbers. They are modelled as HOL reals: the finite
  doubles, idealised to exact arithmetic. \<open>NaN\<close> and the infinities do not exist in the
  model, so every theorem below is about finite numeric inputs, and a division by zero
  (which HOL defines as \<open>0\<close> and JavaScript as an infinity) is kept out by a hypothesis
  wherever it could occur.
\<close>

definition DEFAULT_BPM :: real where "DEFAULT_BPM = 45"
definition DEFAULT_MEAN_NOTES_PER_BAR :: real where "DEFAULT_MEAN_NOTES_PER_BAR = 6"
definition MAX_VOICES :: nat where "MAX_VOICES = 32"
definition OCTAVE_MIN :: nat where "OCTAVE_MIN = 4"
definition OCTAVE_MAX :: nat where "OCTAVE_MAX = 7"
definition BARS_PER_CHANGE :: real where "BARS_PER_CHANGE = 4"

record EnvelopeParams =
  attack :: real
  decay :: real
  sustain :: real
  release :: real

text \<open>The source's \<open>VibratoParams\<close> and \<open>TremoloParams\<close> both have the fields
  \<open>rate\<close> and \<open>depth\<close>; record fields are global names, so they carry a prefix.\<close>

record VibratoParams =
  vibrato_rate :: real
  vibrato_depth :: real

record TremoloParams =
  tremolo_rate :: real
  tremolo_depth :: real

text \<open>\<open>MusicalDuration\<close> is a union of string literals, handled by string operations.\<close>

type_synonym MusicalDuration = string

definition MUSICAL_DURATIONS :: "MusicalDuration list" where
  "MUSICAL_DURATIONS =
     [''1/1'', ''1/1D'', ''1/1T'',
      ''1/2'', ''1/2D'', ''1/2T'',
      ''1/4'', ''1/4D'', ''1/4T'',
      ''1/8'', ''1/8D'', ''1/8T'',
      ''1/16'', ''1/16D'', ''1/16T'',
      ''1/32'', ''1/32D'', ''1/32T'']"

datatype DelayFilterType = lowpass | bandpass | highpass

text \<open>\<open>DelayFilterOrder\<close> is the numeric union \<open>6 | 12 | 24\<close>: a number at run time.\<close>

type_synonym DelayFilterOrder = nat

record DelayParams =
  enabled :: bool
  duration :: MusicalDuration
  feedback :: real
  mix :: real
  filterType :: DelayFilterType
  filterFrequency :: real
  filterResonance :: real
  filterOrder :: DelayFilterOrder

record SynthParams =
  envelope :: EnvelopeParams
  vibrato :: VibratoParams
  tremolo :: TremoloParams
  delay :: DelayParams
  maxNoteDuration :: real

definition DEFAULT_SYNTH_PARAMS :: SynthParams where
  "DEFAULT_SYNTH_PARAMS =
     \<lparr> envelope = \<lparr> attack = 1/100, decay = 1/10, sustain = 8/10, release = 18/10 \<rparr>,
       vibrato = \<lparr> vibrato_rate = 48/10, vibrato_depth = 3/1000 \<rparr>,
       tremolo = \<lparr> tremolo_rate = 21/10, tremolo_depth = 25/100 \<rparr>,
       delay = \<lparr> enabled = False, duration = ''1/4'', feedback = 4/10, mix = 3/10,
                 filterType = lowpass, filterFrequency = 2000, filterResonance = 1,
                 filterOrder = 12 \<rparr>,
       maxNoteDuration = 24/10 \<rparr>"

text \<open>\<open>duration.replace(/[TD]$/, '')\<close>: a trailing \<open>T\<close> or \<open>D\<close> is removed.\<close>

definition replace_TD :: "string \<Rightarrow> string" where
  "replace_TD d =
     (if d \<noteq> [] \<and> (last d = CHR ''T'' \<or> last d = CHR ''D'') then butlast d else d)"

text \<open>\<open>duration.slice(-1)\<close>: the last character, or the empty string.\<close>

definition slice_last :: "string \<Rightarrow> string" where
  "slice_last d = (if d = [] then [] else [last d])"

definition baseValues :: "real \<Rightarrow> (string \<times> real) list" where
  "baseValues wholeNote =
     [(''1/1'', wholeNote),
      (''1/2'', wholeNote / 2),
      (''1/4'', wholeNote / 4),
      (''1/8'', wholeNote / 8),
      (''1/16'', wholeNote / 16),
      (''1/32'', wholeNote / 32)]"

text \<open>\<open>a || b\<close> on an optional number: \<open>b\<close> when \<open>a\<close> is undefined or zero.\<close>

definition or_else :: "real option \<Rightarrow> real \<Rightarrow> real" where
  "or_else a b = (case a of None \<Rightarrow> b | Some x \<Rightarrow> if x = 0 then b else x)"

definition musicalDurationToSeconds :: "MusicalDuration \<Rightarrow> real \<Rightarrow> real" where
  "musicalDurationToSeconds d bpm_arg =
     (let beatSeconds = 60 / bpm_arg;
          wholeNote = beatSeconds * 4;
          base = replace_TD d;
          modifier = slice_last d;
          v = or_else (map_of (baseValues wholeNote) base) (wholeNote / 4)
      in if modifier = ''T'' then v * (2 / 3)
         else if modifier = ''D'' then v * (15 / 10)
         else v)"

definition midiToFreq :: "real \<Rightarrow> real" where
  "midiToFreq midi = 440 * 2 powr ((midi - 69) / 12)"

section \<open>The relation graph\<close>

text \<open>
  Modelled from the spec: the class \<open>Pcs12\<close> (module \<open>./pcs12\<close>) is not among the
  sources. A pitch-class set is an immutable value that supports membership enumeration
  and a canonical display name; the model is the pair of what its two methods return.
\<close>

record Pcs12 =
  asSequence :: "nat list"
  toString :: string

datatype error = TypeError | BackendError

record PcsRelationGraph =
  nodes :: "Pcs12 list"
  adjacency :: "nat list list"
  currentIndex :: nat

text \<open>
  \<open>Math.random()\<close> is an argument \<open>u\<close> of every operation that draws a number; the
  language guarantees \<open>0 \<le> u < 1\<close>. The graph dataset \<open>pcsGraphData.json\<close> is not among
  the sources: its two lists are arguments of the constructor.
\<close>

definition random_index :: "real \<Rightarrow> nat \<Rightarrow> nat" where
  "random_index u n = nat \<lfloor>u * real n\<rfloor>"

definition new_PcsRelationGraph :: "Pcs12 list \<Rightarrow> nat list list \<Rightarrow> real \<Rightarrow> PcsRelationGraph" where
  "new_PcsRelationGraph ns adj u =
     \<lparr> nodes = ns, adjacency = adj, currentIndex = random_index u (length ns) \<rparr>"

text \<open>\<open>current()\<close> reads \<open>nodes[currentIndex]\<close>, which is \<open>undefined\<close> out of range.\<close>

definition current :: "PcsRelationGraph \<Rightarrow> Pcs12 option" where
  "current g = (if currentIndex g < length (nodes g) then Some (nodes g ! currentIndex g) else None)"

text \<open>\<open>advance()\<close>: reading \<open>.length\<close> of a missing adjacency row raises a TypeError.\<close>

definition advance :: "real \<Rightarrow> PcsRelationGraph \<Rightarrow> error + PcsRelationGraph" where
  "advance u g =
     (if length (nodes g) = 0 then Inr g
      else if \<not> currentIndex g < length (adjacency g) then Inl TypeError
      else let neighbors = adjacency g ! currentIndex g in
        if length neighbors > 0
        then Inr (g\<lparr>currentIndex := neighbors ! random_index u (length neighbors)\<rparr>)
        else Inr (g\<lparr>currentIndex := random_index u (length (nodes g))\<rparr>))"

section \<open>The playback backend as the engine sees it\<close>

text \<open>
  Audio nodes are objects of the Web Audio backend. The model gives each created node a
  fresh identity and records every call the engine makes on the backend, and every
  notification it sends to its callbacks, in a log, in the order of the calls. What the
  backend does with the calls (the sound) is outside the model. A backend call is taken
  to return normally; the source wraps the calls of its teardown code in
  \<open>try\<close>/\<open>catch\<close> blocks that ignore a failure.
\<close>

type_synonym node = nat

datatype AudioParam = Frequency | Gain | Q | DelayTime

datatype target = Node node | Param node AudioParam | Destination

datatype command =
    CreateGain node
  | CreateOscillator node
  | CreateDelay node real
  | CreateBiquadFilter node
  | CreateConvolver node
  | SetOscillatorSine node
  | SetFilterType node DelayFilterType
  | SetValue node AudioParam real
  | SetValueAtTime node AudioParam real real
  | LinearRampToValueAtTime node AudioParam real real
  | SetTargetAtTime node AudioParam real real real
  | SetBuffer node
  | Connect node target
  | Disconnect node
  | Start node real
  | StopAt node real
  | Stop node
  | Suspend
  | Resume
  | SetTimeout nat real
  | ClearTimeout nat
  | PlaybackState bool
  | ChordChange string
  | NoteTriggered nat
  | PlayStateChange bool

datatype AudioContextState = suspended | running | closed

text \<open>
  The audio context: its clock, its state and its sample rate are read by the engine and
  changed by the backend only. \<open>createBufferThrows\<close> says whether the backend refuses
  the reverb's impulse buffer (the failure that \<open>createSimpleReverb\<close> catches).
\<close>

record AudioContext =
  currentTime :: real
  state :: AudioContextState
  sampleRate :: nat
  createBufferThrows :: bool

record Voice =
  oscillator :: "node option"
  gainNode :: "node option"
  startTime :: real
  endTime :: real

section \<open>The engine state\<close>

text \<open>
  The fields of the class \<open>MusicEngine\<close>, in the order of the source. A callback field
  holds whether a callback is registered. Four fields are not fields of the class but the
  part of the world the methods read and write: \<open>random\<close>, the results of the calls
  of \<open>Math.random()\<close> still to come; \<open>nextId\<close>, the identity of the next created node
  or timer; \<open>log\<close>, the backend calls and notifications made so far; and
  \<open>mediaSession\<close>, whether the platform has a media session.
\<close>

record MusicEngine =
  audioContext :: "AudioContext option"
  masterGain :: "node option"
  reverbNode :: "node option"
  delayNode :: "node option"
  delayFeedbackGain :: "node option"
  delayFilters :: "node list"
  delayDryGain :: "node option"
  delayWetGain :: "node option"
  delayInputGain :: "node option"
  isPlaying :: bool
  pcsGraph :: PcsRelationGraph
  activePitchClasses :: "nat list"
  voices :: "Voice list"
  nextNoteTime :: real
  nextGraphHopTime :: real
  schedulerId :: "nat option"
  synthParams :: SynthParams
  bpm :: real
  meanNotesPerBar :: real
  onChordChange :: bool
  onNoteTriggered :: bool
  onPlayStateChange :: bool
  random :: "nat \<Rightarrow> real"
  nextId :: nat
  log :: "command list"
  mediaSession :: bool

definition emit :: "command list \<Rightarrow> MusicEngine \<Rightarrow> MusicEngine" where
  "emit cs e = e\<lparr>log := log e @ cs\<rparr>"

definition consume :: "nat \<Rightarrow> MusicEngine \<Rightarrow> MusicEngine" where
  "consume k e = e\<lparr>random := (\<lambda>i. random e (i + k))\<rparr>"

text \<open>The constructor. It builds the graph, which draws the first number, and registers
  the engine with the media session of the platform; the registration issues no call on
  the audio backend and leaves no trace in the log.\<close>

definition new_MusicEngine ::
    "Pcs12 list \<Rightarrow> nat list list \<Rightarrow> (nat \<Rightarrow> real) \<Rightarrow> bool \<Rightarrow> MusicEngine" where
  "new_MusicEngine ns adj rnd ms =
     \<lparr> audioContext = None, masterGain = None, reverbNode = None, delayNode = None,
       delayFeedbackGain = None, delayFilters = [], delayDryGain = None,
       delayWetGain = None, delayInputGain = None, isPlaying = False,
       pcsGraph = new_PcsRelationGraph ns adj (rnd 0),
       activePitchClasses = [], voices = [], nextNoteTime = 0, nextGraphHopTime = 0,
       schedulerId = None, synthParams = DEFAULT_SYNTH_PARAMS,
       bpm = DEFAULT_BPM, meanNotesPerBar = DEFAULT_MEAN_NOTES_PER_BAR,
       onChordChange = False, onNoteTriggered = False, onPlayStateChange = False,
       random = (\<lambda>i. rnd (i + 1)), nextId = 0, log = [], mediaSession = ms \<rparr>"

definition sixteenthSeconds :: "MusicEngine \<Rightarrow> real" where
  "sixteenthSeconds e = (60 / bpm e) / 4"

definition barSeconds :: "MusicEngine \<Rightarrow> real" where
  "barSeconds e = 4 * (60 / bpm e)"

definition lambda :: "MusicEngine \<Rightarrow> real" where
  "lambda e = meanNotesPerBar e / barSeconds e"

definition updateMediaSessionState :: "MusicEngine \<Rightarrow> MusicEngine" where
  "updateMediaSessionState e =
     (if mediaSession e then emit [PlaybackState (isPlaying e)] e else e)"


definition setBpm :: "real \<Rightarrow> MusicEngine \<Rightarrow> MusicEngine" where
  "setBpm b e = e\<lparr>bpm := max 20 (min 300 b)\<rparr>"


definition generateExponentialDelay :: "MusicEngine \<Rightarrow> real \<Rightarrow> real" where
  "generateExponentialDelay e u = - ln (1 - u) / lambda e"

definition quantizeToSixteenth :: "MusicEngine \<Rightarrow> real \<Rightarrow> real" where
  "quantizeToSixteenth e t =
     real_of_int \<lceil>t / sixteenthSeconds e\<rceil> * sixteenthSeconds e"

section \<open>The delay effect and its filter cascade\<close>

text \<open>\<open>Partial<SynthParams>\<close>: each top-level field is present or absent. A present
  field is a complete object, so spreading it over the old one gives the new one.\<close>

record SynthParamsUpdate =
  envelope_opt :: "EnvelopeParams option"
  vibrato_opt :: "VibratoParams option"
  tremolo_opt :: "TremoloParams option"
  delay_opt :: "DelayParams option"
  maxNoteDuration_opt :: "real option"

text \<open>The loop \<open>for (let i = 0; i < numFilters; i++)\<close> of \<open>createDelayEffect\<close> and of
  \<open>recreateDelayFilterChain\<close>: each round creates one biquad stage and pushes it.\<close>

function create_filters ::
    "DelayFilterType \<Rightarrow> real \<Rightarrow> real \<Rightarrow> real \<Rightarrow> nat \<Rightarrow> MusicEngine \<Rightarrow> MusicEngine" where
  "create_filters ty freq res numFilters i e =
     (if real i < numFilters
      then let f = nextId e in
        create_filters ty freq res numFilters (Suc i)
          (emit [CreateBiquadFilter f, SetFilterType f ty,
                 SetValue f Frequency freq, SetValue f Q res]
             (e\<lparr>nextId := Suc f, delayFilters := delayFilters e @ [f]\<rparr>))
      else e)"
  by pat_completeness auto
termination
  by (relation "measure (\<lambda>(ty, freq, res, numFilters, i, e). nat \<lceil>numFilters\<rceil> - i)")
     (simp_all add: zless_nat_eq_int_zless less_ceiling_iff diff_less_mono2)

text \<open>The wiring \<open>delayNode -> filters -> feedbackGain & wetGain\<close>.\<close>

definition connect_filters :: "node \<Rightarrow> node list \<Rightarrow> node \<Rightarrow> node \<Rightarrow> command list" where
  "connect_filters dn fs fb wet =
     (if length fs > 0
      then [Connect dn (Node (fs ! 0))]
           @ map (\<lambda>i. Connect (fs ! i) (Node (fs ! (i + 1)))) [0..<length fs - 1]
           @ [Connect (fs ! (length fs - 1)) (Node fb),
              Connect (fs ! (length fs - 1)) (Node wet)]
      else [Connect dn (Node fb), Connect dn (Node wet)])"

definition recreateDelayFilterChain ::
    "DelayFilterType \<Rightarrow> real \<Rightarrow> real \<Rightarrow> real \<Rightarrow> MusicEngine \<Rightarrow> MusicEngine" where
  "recreateDelayFilterChain ty freq res numFilters e =
     (case (audioContext e, delayNode e, delayFeedbackGain e, delayWetGain e) of
        (Some ctx, Some dn, Some fb, Some wet) \<Rightarrow>
          let e1 = emit (map Disconnect (delayFilters e)) e;
              e2 = create_filters ty freq res numFilters 0 (e1\<lparr>delayFilters := []\<rparr>);
              e3 = emit [Disconnect dn] e2
          in emit (connect_filters dn (delayFilters e3) fb wet) e3
      | _ \<Rightarrow> e)"

definition updateDelayFilters ::
    "DelayFilterType \<Rightarrow> real \<Rightarrow> real \<Rightarrow> DelayFilterOrder \<Rightarrow> MusicEngine \<Rightarrow> MusicEngine" where
  "updateDelayFilters ty freq res ord e =
     (case audioContext e of
        None \<Rightarrow> e
      | Some ctx \<Rightarrow>
          let numFilters = real ord / 6 in
          if real (length (delayFilters e)) \<noteq> numFilters
          then recreateDelayFilterChain ty freq res numFilters e
          else emit (concat (map (\<lambda>f.
                  [SetFilterType f ty,
                   SetTargetAtTime f Frequency freq (currentTime ctx) (5/100),
                   SetTargetAtTime f Q res (currentTime ctx) (5/100)]) (delayFilters e))) e)"

definition updateDelayParams :: "MusicEngine \<Rightarrow> MusicEngine" where
  "updateDelayParams e =
     (case audioContext e of
        None \<Rightarrow> e
      | Some ctx \<Rightarrow>
          let d = delay (synthParams e);
              now = currentTime ctx;
              e1 = (case delayNode e of
                      Some dn \<Rightarrow> emit [SetTargetAtTime dn DelayTime
                                   (musicalDurationToSeconds (duration d) (bpm e)) now (5/100)] e
                    | None \<Rightarrow> e);
              e2 = (case delayFeedbackGain e1 of
                      Some fb \<Rightarrow> emit [SetTargetAtTime fb Gain
                                   (if enabled d then min (feedback d) (95/100) else 0) now (5/100)] e1
                    | None \<Rightarrow> e1);
              e3 = (case (delayDryGain e2, delayWetGain e2) of
                      (Some dry, Some wet) \<Rightarrow>
                        emit [SetTargetAtTime dry Gain (1 - (if enabled d then mix d else 0)) now (5/100),
                              SetTargetAtTime wet Gain (if enabled d then mix d else 0) now (5/100)] e2
                    | _ \<Rightarrow> e2)
          in updateDelayFilters (filterType d) (filterFrequency d) (filterResonance d)
               (filterOrder d) e3)"

definition setSynthParams :: "SynthParamsUpdate \<Rightarrow> MusicEngine \<Rightarrow> MusicEngine" where
  "setSynthParams params e =
     (let e1 = (case envelope_opt params of
                  Some x \<Rightarrow> e\<lparr>synthParams := (synthParams e)\<lparr>envelope := x\<rparr>\<rparr> | None \<Rightarrow> e);
          e2 = (case vibrato_opt params of
                  Some x \<Rightarrow> e1\<lparr>synthParams := (synthParams e1)\<lparr>vibrato := x\<rparr>\<rparr> | None \<Rightarrow> e1);
          e3 = (case tremolo_opt params of
                  Some x \<Rightarrow> e2\<lparr>synthParams := (synthParams e2)\<lparr>tremolo := x\<rparr>\<rparr> | None \<Rightarrow> e2);
          e4 = (case delay_opt params of
                  Some x \<Rightarrow> updateDelayParams (e3\<lparr>synthParams := (synthParams e3)\<lparr>delay := x\<rparr>\<rparr>)
                | None \<Rightarrow> e3)
      in case maxNoteDuration_opt params of
           Some x \<Rightarrow> e4\<lparr>synthParams := (synthParams e4)\<lparr>maxNoteDuration := x\<rparr>\<rparr> | None \<Rightarrow> e4)"

definition getSynthParams :: "MusicEngine \<Rightarrow> SynthParams" where
  "getSynthParams e = synthParams e"

definition createDelayMixNode :: "MusicEngine \<Rightarrow> node option \<times> MusicEngine" where
  "createDelayMixNode e =
     (case (audioContext e, delayDryGain e, delayWetGain e) of
        (Some ctx, Some dry, Some wet) \<Rightarrow>
          let mixNode = nextId e in
          (Some mixNode,
           emit [CreateGain mixNode, SetValue mixNode Gain 1,
                 Connect dry (Node mixNode), Connect wet (Node mixNode)]
             (e\<lparr>nextId := Suc mixNode\<rparr>))
      | _ \<Rightarrow> (None, e))"

definition createDelayEffect :: "MusicEngine \<Rightarrow> MusicEngine" where
  "createDelayEffect e =
     (case (audioContext e, masterGain e) of
        (Some ctx, Some mg) \<Rightarrow>
          let d = delay (synthParams e);
              delaySeconds = musicalDurationToSeconds (duration d) (bpm e);
              dn = nextId e; fb = dn + 1; dry = dn + 2; wet = dn + 3; inp = dn + 4;
              e1 = emit [CreateDelay dn 5, SetValue dn DelayTime delaySeconds,
                         CreateGain fb,
                         SetValue fb Gain (if enabled d then min (feedback d) (95/100) else 0),
                         CreateGain dry, CreateGain wet,
                         SetValue dry Gain (1 - (if enabled d then mix d else 0)),
                         SetValue wet Gain (if enabled d then mix d else 0),
                         CreateGain inp, SetValue inp Gain 1]
                     (e\<lparr>delayNode := Some dn, delayFeedbackGain := Some fb,
                        delayDryGain := Some dry, delayWetGain := Some wet,
                        delayInputGain := Some inp, nextId := dn + 5\<rparr>);
              e2 = create_filters (filterType d) (filterFrequency d) (filterResonance d)
                     (real (filterOrder d) / 6) 0 (e1\<lparr>delayFilters := []\<rparr>)
          in emit ([Connect mg (Node dry), Connect mg (Node inp), Connect inp (Node dn)]
                   @ connect_filters dn (delayFilters e2) fb wet
                   @ [Connect fb (Node inp)]) e2
      | _ \<Rightarrow> e)"

section \<open>Reverb\<close>

text \<open>
  The impulse response is a buffer of noise; its samples are not modelled, only the
  number of calls of \<open>Math.random()\<close> that filling it takes: one for every sample of
  either channel, and one more for every early-reflection offset within a millisecond of
  a sample of the first 100 ms.
\<close>

definition early_reflections :: "real list" where
  "early_reflections = [1/100, 23/1000, 37/1000, 52/1000, 68/1000, 83/1000]"

definition reverb_draws_at :: "nat \<Rightarrow> nat \<Rightarrow> nat" where
  "reverb_draws_at rate i =
     (if real i < real rate * (1/10)
      then length (filter (\<lambda>d. \<bar>real i / real rate - d\<bar> < 1/1000) early_reflections)
      else 0) + 1"

definition reverb_draws :: "nat \<Rightarrow> nat" where
  "reverb_draws rate = 2 * sum_list (map (reverb_draws_at rate) [0..<rate * 3])"

definition createSimpleReverb :: "MusicEngine \<Rightarrow> node option \<times> MusicEngine" where
  "createSimpleReverb e =
     (case audioContext e of
        None \<Rightarrow> (None, e)
      | Some ctx \<Rightarrow>
          let convolver = nextId e;
              e1 = emit [CreateConvolver convolver] (e\<lparr>nextId := Suc convolver\<rparr>)
          in if createBufferThrows ctx then (None, e1)
             else (Some convolver,
                   emit [SetBuffer convolver] (consume (reverb_draws (sampleRate ctx)) e1)))"

section \<open>Voices\<close>

text \<open>What the cleanup does to a finished voice, and what an eviction and \<open>stop()\<close> do
  to a voice: the second also stops the oscillator.\<close>

definition disconnect_voice :: "Voice \<Rightarrow> command list" where
  "disconnect_voice v =
     (case oscillator v of Some osc \<Rightarrow> [Disconnect osc] | None \<Rightarrow> [])
     @ (case gainNode v of Some g \<Rightarrow> [Disconnect g] | None \<Rightarrow> [])"

definition stop_voice :: "Voice \<Rightarrow> command list" where
  "stop_voice v =
     (case oscillator v of Some osc \<Rightarrow> [Stop osc, Disconnect osc] | None \<Rightarrow> [])
     @ (case gainNode v of Some g \<Rightarrow> [Disconnect g] | None \<Rightarrow> [])"

definition finished :: "real \<Rightarrow> Voice \<Rightarrow> bool" where
  "finished now v = (endTime v < now - 5/10)"

definition cleanupOldVoices :: "MusicEngine \<Rightarrow> MusicEngine" where
  "cleanupOldVoices e =
     (case audioContext e of
        None \<Rightarrow> e
      | Some ctx \<Rightarrow>
          let now = currentTime ctx in
          emit (concat (map disconnect_voice (filter (finished now) (voices e))))
            (e\<lparr>voices := filter (\<lambda>v. \<not> finished now v) (voices e)\<rparr>))"

text \<open>The voice limit of \<open>triggerNote\<close>: \<open>shift()\<close> takes the first voice off.\<close>

definition evict_oldest :: "MusicEngine \<Rightarrow> MusicEngine" where
  "evict_oldest e =
     (if length (voices e) \<ge> MAX_VOICES
      then (case voices e of
              [] \<Rightarrow> e
            | oldest # rest \<Rightarrow> emit (stop_voice oldest) (e\<lparr>voices := rest\<rparr>))
      else e)"

definition triggerNote :: "real \<Rightarrow> real \<Rightarrow> real \<Rightarrow> MusicEngine \<Rightarrow> MusicEngine" where
  "triggerNote freq when dur e =
     (case (audioContext e, masterGain e) of
        (Some ctx, Some mg) \<Rightarrow>
          let e1 = cleanupOldVoices e;
              e2 = evict_oldest e1;
              env = envelope (synthParams e2);
              vib = vibrato (synthParams e2);
              tre = tremolo (synthParams e2);
              osc = nextId e2;
              vibratoLFO = osc + 1;
              vibratoGain = osc + 2;
              tremoloLFO = osc + 3;
              tremoloGain = osc + 4;
              tremoloDepthNode = osc + 5;
              envelopeGain = osc + 6;
              peakTime = when + attack env;
              decayEndTime = peakTime + decay env;
              releaseStartTime = when + dur;
              releaseEndTime = releaseStartTime + release env;
              e3 = emit
                [CreateOscillator osc, SetOscillatorSine osc,
                 SetValueAtTime osc Frequency freq when,
                 CreateOscillator vibratoLFO, CreateGain vibratoGain,
                 SetOscillatorSine vibratoLFO,
                 SetValueAtTime vibratoLFO Frequency (vibrato_rate vib) when,
                 SetValueAtTime vibratoGain Gain (freq * vibrato_depth vib) when,
                 Connect vibratoLFO (Node vibratoGain),
                 Connect vibratoGain (Param osc Frequency),
                 CreateOscillator tremoloLFO, CreateGain tremoloGain,
                 CreateGain tremoloDepthNode,
                 SetOscillatorSine tremoloLFO,
                 SetValueAtTime tremoloLFO Frequency (tremolo_rate tre) when,
                 SetValueAtTime tremoloGain Gain (1 - tremolo_depth tre / 2) when,
                 SetValueAtTime tremoloDepthNode Gain (tremolo_depth tre / 2) when,
                 Connect tremoloLFO (Node tremoloDepthNode),
                 CreateGain envelopeGain,
                 SetValueAtTime envelopeGain Gain 0 when,
                 LinearRampToValueAtTime envelopeGain Gain (3/10) peakTime,
                 LinearRampToValueAtTime envelopeGain Gain (3/10 * sustain env) decayEndTime,
                 SetValueAtTime envelopeGain Gain (3/10 * sustain env) releaseStartTime,
                 LinearRampToValueAtTime envelopeGain Gain 0 releaseEndTime,
                 Connect osc (Node envelopeGain),
                 Connect envelopeGain (Node tremoloGain),
                 Connect tremoloDepthNode (Param tremoloGain Gain),
                 Connect tremoloGain (Node mg),
                 Start osc when, Start vibratoLFO when, Start tremoloLFO when,
                 StopAt osc (releaseEndTime + 1/10),
                 StopAt vibratoLFO (releaseEndTime + 1/10),
                 StopAt tremoloLFO (releaseEndTime + 1/10)]
                (e2\<lparr>nextId := osc + 7\<rparr>)
          in e3\<lparr>voices := voices e3 @
                 [\<lparr> oscillator = Some osc, gainNode = Some envelopeGain,
                    startTime = when, endTime = releaseEndTime \<rparr>]\<rparr>
      | _ \<Rightarrow> e)"

text \<open>\<open>triggerRandomNote\<close> draws three numbers, in this order: the pitch class, the
  octave and the duration.\<close>

definition triggerRandomNote :: "real \<Rightarrow> MusicEngine \<Rightarrow> MusicEngine" where
  "triggerRandomNote whenTime e =
     (if length (activePitchClasses e) = 0 then e
      else
        let pitchClass = activePitchClasses e
                           ! random_index (random e 0) (length (activePitchClasses e));
            octave = OCTAVE_MIN + random_index (random e 1) (OCTAVE_MAX - OCTAVE_MIN + 1);
            midi = octave * 12 + pitchClass;
            freq = midiToFreq (real midi);
            dur = maxNoteDuration (synthParams e) * (5/10 + random e 2 * (5/10));
            e1 = triggerNote freq whenTime dur (consume 3 e)
        in if onNoteTriggered e1 then emit [NoteTriggered pitchClass] e1 else e1)"

section \<open>The scheduler\<close>

definition scheduleNextNote :: "real \<Rightarrow> MusicEngine \<Rightarrow> MusicEngine" where
  "scheduleNextNote t e =
     (let deltaSeconds = max (1/100) (generateExponentialDelay e (random e 0));
          tgt = t + deltaSeconds
      in (consume 1 e)\<lparr>nextNoteTime := quantizeToSixteenth e tgt\<rparr>)"

text \<open>An exception ends a method; the result then carries the error and the state the
  method leaves behind.\<close>

type_synonym 'a result = "error \<times> MusicEngine + 'a"

text \<open>\<open>this.pcsGraph.advance()\<close> on the engine's graph: one number is drawn, unless the
  graph has no node or the call raises.\<close>

definition advance_pcsGraph :: "MusicEngine \<Rightarrow> MusicEngine result" where
  "advance_pcsGraph e =
     (case advance (random e 0) (pcsGraph e) of
        Inl err \<Rightarrow> Inl (err, e)
      | Inr g \<Rightarrow>
          Inr ((if length (nodes (pcsGraph e)) = 0 then e else consume 1 e)\<lparr>pcsGraph := g\<rparr>))"

text \<open>\<open>refreshPitchClasses\<close> calls a method of \<open>current()\<close>: a TypeError when that is
  \<open>undefined\<close>.\<close>

definition refreshPitchClasses :: "MusicEngine \<Rightarrow> MusicEngine result" where
  "refreshPitchClasses e =
     (case current (pcsGraph e) of
        None \<Rightarrow> Inl (TypeError, e)
      | Some p \<Rightarrow>
          let e1 = e\<lparr>activePitchClasses := asSequence p\<rparr>
          in Inr (if onChordChange e1 then emit [ChordChange (toString p)] e1 else e1))"

text \<open>The \<open>while\<close> loop of \<open>scheduler\<close>. Beside the state it returns the arguments of
  its calls of \<open>triggerRandomNote\<close>, in the order of the calls.\<close>

function scheduler_loop :: "real \<Rightarrow> nat \<Rightarrow> MusicEngine \<Rightarrow> real list \<times> MusicEngine" where
  "scheduler_loop now notesTriggered e =
     (if nextNoteTime e \<le> now + 2/10 \<and> notesTriggered < 3
      then
        let noteTime = max (nextNoteTime e) (now + 2/100);
            e1 = triggerRandomNote noteTime e;
            e2 = scheduleNextNote (nextNoteTime e1) e1;
            r = scheduler_loop now (notesTriggered + 1) e2
        in (noteTime # fst r, snd r)
      else ([], e))"
  by pat_completeness auto
termination
  by (relation "measure (\<lambda>(now, notesTriggered, e). 3 - notesTriggered)") auto

definition graph_hop :: "MusicEngine \<Rightarrow> MusicEngine result" where
  "graph_hop e =
     (case advance_pcsGraph e of
        Inl x \<Rightarrow> Inl x
      | Inr e1 \<Rightarrow>
          (case refreshPitchClasses e1 of
             Inl x \<Rightarrow> Inl x
           | Inr e2 \<Rightarrow>
               Inr (e2\<lparr>nextGraphHopTime :=
                      nextGraphHopTime e2 + barSeconds e2 * BARS_PER_CHANGE\<rparr>)))"

text \<open>\<open>this.schedulerId = window.setTimeout(() => this.scheduler(), 50)\<close>.\<close>

definition schedule_next_check :: "MusicEngine \<Rightarrow> MusicEngine" where
  "schedule_next_check e =
     emit [SetTimeout (nextId e) 50] (e\<lparr>schedulerId := Some (nextId e), nextId := Suc (nextId e)\<rparr>)"

definition scheduler :: "MusicEngine \<Rightarrow> (real list \<times> MusicEngine) result" where
  "scheduler e =
     (case audioContext e of
        None \<Rightarrow> Inr ([], e)
      | Some ctx \<Rightarrow>
          (if \<not> isPlaying e then Inr ([], e)
           else
             (case (if currentTime ctx \<ge> nextGraphHopTime e - 2/10 then graph_hop e else Inr e) of
                Inl x \<Rightarrow> Inl x
              | Inr e1 \<Rightarrow>
                  Inr (fst (scheduler_loop (currentTime ctx) 0 e1),
                       schedule_next_check (snd (scheduler_loop (currentTime ctx) 0 e1))))))"

section \<open>Stopping and starting\<close>

definition release_node :: "node option \<Rightarrow> command list" where
  "release_node n = (case n of Some x \<Rightarrow> [Disconnect x] | None \<Rightarrow> [])"

text \<open>The steps of \<open>stop()\<close>, in the order of the source.\<close>

definition clear_scheduler :: "MusicEngine \<Rightarrow> MusicEngine" where
  "clear_scheduler e =
     (case schedulerId e of
        Some timer \<Rightarrow> emit [ClearTimeout timer] (e\<lparr>schedulerId := None\<rparr>)
      | None \<Rightarrow> e)"

definition stop_all_voices :: "MusicEngine \<Rightarrow> MusicEngine" where
  "stop_all_voices e = (emit (concat (map stop_voice (voices e))) e)\<lparr>voices := []\<rparr>"

definition release_masterGain :: "MusicEngine \<Rightarrow> MusicEngine" where
  "release_masterGain e = (emit (release_node (masterGain e)) e)\<lparr>masterGain := None\<rparr>"

definition release_delayNode :: "MusicEngine \<Rightarrow> MusicEngine" where
  "release_delayNode e = (emit (release_node (delayNode e)) e)\<lparr>delayNode := None\<rparr>"

definition release_delayFeedbackGain :: "MusicEngine \<Rightarrow> MusicEngine" where
  "release_delayFeedbackGain e =
     (emit (release_node (delayFeedbackGain e)) e)\<lparr>delayFeedbackGain := None\<rparr>"

definition release_delayDryGain :: "MusicEngine \<Rightarrow> MusicEngine" where
  "release_delayDryGain e = (emit (release_node (delayDryGain e)) e)\<lparr>delayDryGain := None\<rparr>"

definition release_delayWetGain :: "MusicEngine \<Rightarrow> MusicEngine" where
  "release_delayWetGain e = (emit (release_node (delayWetGain e)) e)\<lparr>delayWetGain := None\<rparr>"

definition release_delayInputGain :: "MusicEngine \<Rightarrow> MusicEngine" where
  "release_delayInputGain e =
     (emit (release_node (delayInputGain e)) e)\<lparr>delayInputGain := None\<rparr>"

definition release_delayFilters :: "MusicEngine \<Rightarrow> MusicEngine" where
  "release_delayFilters e = (emit (map Disconnect (delayFilters e)) e)\<lparr>delayFilters := []\<rparr>"

definition release_reverbNode :: "MusicEngine \<Rightarrow> MusicEngine" where
  "release_reverbNode e = (emit (release_node (reverbNode e)) e)\<lparr>reverbNode := None\<rparr>"

definition suspend_context :: "MusicEngine \<Rightarrow> MusicEngine" where
  "suspend_context e =
     (case audioContext e of
        Some ctx \<Rightarrow> if state ctx = running then emit [Suspend] e else e
      | None \<Rightarrow> e)"

definition announce_stopped :: "MusicEngine \<Rightarrow> MusicEngine" where
  "announce_stopped e =
     (let e1 = updateMediaSessionState e
      in if onPlayStateChange e1 then emit [PlayStateChange False] e1 else e1)"

definition stop :: "MusicEngine \<Rightarrow> MusicEngine" where
  "stop e =
     (let e1 = e\<lparr>isPlaying := False\<rparr>;
          e2 = clear_scheduler e1;
          e3 = stop_all_voices e2;
          e4 = release_masterGain e3;
          e5 = release_delayNode e4;
          e6 = release_delayFeedbackGain e5;
          e7 = release_delayDryGain e6;
          e8 = release_delayWetGain e7;
          e9 = release_delayInputGain e8;
          e10 = release_delayFilters e9;
          e11 = release_reverbNode e10;
          e12 = suspend_context e11
      in announce_stopped e12)"

text \<open>What a call of \<open>stop()\<close> does whatever the state: it asks a running context to
  suspend and tells the media session and the play-state callback.\<close>

definition stop_notices :: "MusicEngine \<Rightarrow> command list" where
  "stop_notices e =
     (case audioContext e of
        Some ctx \<Rightarrow> if state ctx = running then [Suspend] else []
      | None \<Rightarrow> [])
     @ (if mediaSession e then [PlaybackState False] else [])
     @ (if onPlayStateChange e then [PlayStateChange False] else [])"

text \<open>
  What \<open>start()\<close> gets from the backend: the context that \<open>new AudioContext()\<close> returns
  (\<open>None\<close> when it raises), and the context as it is once \<open>resume()\<close> has settled
  (\<open>None\<close> when it is rejected). \<open>start()\<close> is modelled as one step: what other calls do
  while it awaits \<open>resume()\<close> is not modelled.
\<close>

record StartEnv =
  newContext :: "AudioContext option"
  resumed :: "AudioContext option"

definition acquire_context :: "StartEnv \<Rightarrow> MusicEngine \<Rightarrow> MusicEngine result" where
  "acquire_context env e =
     (case (case audioContext e of Some c \<Rightarrow> Some c | None \<Rightarrow> newContext env) of
        None \<Rightarrow> Inl (BackendError, e)
      | Some ctx \<Rightarrow>
          (if state ctx = suspended
           then (case resumed env of
                   None \<Rightarrow> Inl (BackendError, emit [Resume] (e\<lparr>audioContext := Some ctx\<rparr>))
                 | Some ctx' \<Rightarrow> Inr (emit [Resume] (e\<lparr>audioContext := Some ctx'\<rparr>)))
           else Inr (e\<lparr>audioContext := Some ctx\<rparr>)))"

text \<open>The master gain, the delay effect, the reverb and their connection to the
  destination.\<close>

definition build_audio_chain :: "MusicEngine \<Rightarrow> MusicEngine" where
  "build_audio_chain e =
     (let mg = nextId e;
          e1 = emit [CreateGain mg, SetValue mg Gain (5/10)]
                 (e\<lparr>masterGain := Some mg, nextId := Suc mg\<rparr>);
          e2 = createDelayEffect e1;
          rv = createSimpleReverb e2;
          e3 = (snd rv)\<lparr>reverbNode := fst rv\<rparr>;
          src = (if delayDryGain e3 \<noteq> None \<and> delayWetGain e3 \<noteq> None
                 then createDelayMixNode e3 else (masterGain e3, e3));
          e4 = snd src
      in case (reverbNode e4, fst src) of
           (Some r, Some sg) \<Rightarrow>
             emit [CreateGain (nextId e4), CreateGain (nextId e4 + 1),
                   SetValue (nextId e4) Gain (7/10), SetValue (nextId e4 + 1) Gain (3/10),
                   Connect sg (Node (nextId e4)), Connect sg (Node r),
                   Connect r (Node (nextId e4 + 1)),
                   Connect (nextId e4) Destination, Connect (nextId e4 + 1) Destination]
               (e4\<lparr>nextId := nextId e4 + 2\<rparr>)
         | (None, Some sg) \<Rightarrow> emit [Connect sg Destination] e4
         | _ \<Rightarrow> e4)"

text \<open>\<open>// Set initial timing\<close>: the three statements that follow the comment. The
  context is present at this point of \<open>start()\<close>.\<close>

definition seed_timing :: "MusicEngine \<Rightarrow> MusicEngine" where
  "seed_timing e =
     (case audioContext e of
        None \<Rightarrow> e
      | Some ctx \<Rightarrow>
          let startTime = currentTime ctx;
              e1 = e\<lparr>nextNoteTime := startTime + 1/10\<rparr>;
              e2 = e1\<lparr>nextGraphHopTime := startTime + barSeconds e1 * BARS_PER_CHANGE\<rparr>
          in scheduleNextNote startTime e2)"

definition announce_playing :: "MusicEngine \<Rightarrow> MusicEngine" where
  "announce_playing e =
     (let e1 = updateMediaSessionState (e\<lparr>isPlaying := True\<rparr>)
      in if onPlayStateChange e1 then emit [PlayStateChange True] e1 else e1)"

text \<open>\<open>start()\<close> up to its call of \<open>this.scheduler()\<close>, without the \<open>catch\<close>.\<close>

definition start_setup :: "StartEnv \<Rightarrow> MusicEngine \<Rightarrow> MusicEngine result" where
  "start_setup env e =
     (case acquire_context env e of
        Inl x \<Rightarrow> Inl x
      | Inr e1 \<Rightarrow>
          (case refreshPitchClasses (build_audio_chain e1) of
             Inl x \<Rightarrow> Inl x
           | Inr e2 \<Rightarrow> Inr (announce_playing (seed_timing e2))))"

definition start :: "StartEnv \<Rightarrow> MusicEngine \<Rightarrow> (real list \<times> MusicEngine) result" where
  "start env e =
     (if isPlaying e then Inr ([], e)
      else
        (case start_setup env e of
           Inl (err, e1) \<Rightarrow> Inl (err, stop e1)
         | Inr e1 \<Rightarrow>
             (case scheduler e1 of
                Inl (err, e2) \<Rightarrow> Inl (err, stop e2)
              | Inr r \<Rightarrow> Inr r)))"

definition toggle :: "StartEnv \<Rightarrow> MusicEngine \<Rightarrow> (real list \<times> MusicEngine) result" where
  "toggle env e = (if isPlaying e then Inr ([], stop e) else start env e)"

definition getIsPlaying :: "MusicEngine \<Rightarrow> bool" where
  "getIsPlaying e = isPlaying e"

section \<open>Executions of the scheduler\<close>

text \<open>The backend's clock, as the engine reads it at the start of a call.\<close>

definition at_time :: "real \<Rightarrow> MusicEngine \<Rightarrow> MusicEngine" where
  "at_time t e = e\<lparr>audioContext := map_option (\<lambda>c. c\<lparr>currentTime := t\<rparr>) (audioContext e)\<rparr>"




section \<open>Predicates of the properties\<close>


text \<open>The graph data is well formed when every node has an adjacency row and every
  entry of a row is the index of a node.\<close>

definition well_formed :: "PcsRelationGraph \<Rightarrow> bool" where
  "well_formed g \<longleftrightarrow>
     length (adjacency g) = length (nodes g)
     \<and> list_all (list_all (\<lambda>j. j < length (nodes g))) (adjacency g)"

text \<open>The graph of an engine is in order when its data is well formed and the current
  index is the index of a node.\<close>

definition graph_ok :: "MusicEngine \<Rightarrow> bool" where
  "graph_ok e \<longleftrightarrow>
     well_formed (pcsGraph e) \<and> currentIndex (pcsGraph e) < length (nodes (pcsGraph e))"

text \<open>Every number still to be drawn lies in the unit interval, as \<open>Math.random()\<close>
  guarantees.\<close>

definition unit_draws :: "MusicEngine \<Rightarrow> bool" where
  "unit_draws e \<longleftrightarrow> (\<forall>i. 0 \<le> random e i \<and> random e i < 1)"



definition base_durations :: "MusicalDuration list" where
  "base_durations = [''1/1'', ''1/2'', ''1/4'', ''1/8'', ''1/16'', ''1/32'']"

text \<open>The stage of a cascade built by the filter loop, as the log shows it.\<close>

definition new_filter :: "DelayFilterType \<Rightarrow> real \<Rightarrow> real \<Rightarrow> node \<Rightarrow> command list" where
  "new_filter ty freq res f =
     [CreateBiquadFilter f, SetFilterType f ty, SetValue f Frequency freq, SetValue f Q res]"


text \<open>The parameters after \<open>setSynthParams\<close> has merged an update with a delay part
  \<open>d\<close>, up to the maximal note duration, which is stored last.\<close>

definition merged_params :: "SynthParamsUpdate \<Rightarrow> DelayParams \<Rightarrow> SynthParams \<Rightarrow> SynthParams" where
  "merged_params params d sp = sp
     \<lparr>envelope := (case envelope_opt params of Some x \<Rightarrow> x | None \<Rightarrow> envelope sp),
      vibrato := (case vibrato_opt params of Some x \<Rightarrow> x | None \<Rightarrow> vibrato sp),
      tremolo := (case tremolo_opt params of Some x \<Rightarrow> x | None \<Rightarrow> tremolo sp),
      delay := d\<rparr>"

section \<open>A small engine to run the definitions on\<close>

definition example_nodes :: "Pcs12 list" where
  "example_nodes =
     [\<lparr> asSequence = [0, 4, 7], toString = ''{0,4,7}'' \<rparr>,
      \<lparr> asSequence = [0, 3, 7], toString = ''{0,3,7}'' \<rparr>,
      \<lparr> asSequence = [2, 5, 9], toString = ''{2,5,9}'' \<rparr>]"

definition example_adjacency :: "nat list list" where
  "example_adjacency = [[1], [0, 2], []]"

definition example_engine :: MusicEngine where
  "example_engine = setBpm 60 (new_MusicEngine example_nodes example_adjacency (\<lambda>i. 0) False)"








section \<open>The log\<close>

lemma emit_fields [simp]:
  "audioContext (emit cs e) = audioContext e" "masterGain (emit cs e) = masterGain e"
  "reverbNode (emit cs e) = reverbNode e" "delayNode (emit cs e) = delayNode e"
  "delayFeedbackGain (emit cs e) = delayFeedbackGain e" "delayFilters (emit cs e) = delayFilters e"
  "delayDryGain (emit cs e) = delayDryGain e" "delayWetGain (emit cs e) = delayWetGain e"
  "delayInputGain (emit cs e) = delayInputGain e" "isPlaying (emit cs e) = isPlaying e"
  "pcsGraph (emit cs e) = pcsGraph e" "activePitchClasses (emit cs e) = activePitchClasses e"
  "voices (emit cs e) = voices e" "nextNoteTime (emit cs e) = nextNoteTime e"
  "nextGraphHopTime (emit cs e) = nextGraphHopTime e" "schedulerId (emit cs e) = schedulerId e"
  "synthParams (emit cs e) = synthParams e" "bpm (emit cs e) = bpm e"
  "meanNotesPerBar (emit cs e) = meanNotesPerBar e" "onChordChange (emit cs e) = onChordChange e"
  "onNoteTriggered (emit cs e) = onNoteTriggered e"
  "onPlayStateChange (emit cs e) = onPlayStateChange e" "random (emit cs e) = random e"
  "nextId (emit cs e) = nextId e" "mediaSession (emit cs e) = mediaSession e"
  "log (emit cs e) = log e @ cs"
  by (simp_all add: emit_def)

lemma emit_nothing [simp]: "emit [] e = e"
  by (simp add: emit_def)

lemma emit_emit [simp]: "emit cs (emit bs e) = emit (bs @ cs) e"
  by (simp add: emit_def)


section \<open>Durations, tempo and the grid\<close>




text \<open>
  C4. For every tempo above zero, a quarter note lasts \<open>60/bpm\<close> seconds and a whole
  note four times that; for each of the six base durations the dotted variant lasts 1.5
  times the base value and the triplet variant two thirds of it.
\<close>

theorem musicalDurationToSeconds_table:
  assumes "0 < b"
  shows "musicalDurationToSeconds ''1/4'' b = 60 / b
       \<and> musicalDurationToSeconds ''1/1'' b = 4 * (60 / b)
       \<and> (\<forall>d \<in> set base_durations.
            musicalDurationToSeconds (d @ ''D'') b = 15 / 10 * musicalDurationToSeconds d b
          \<and> musicalDurationToSeconds (d @ ''T'') b = 2 / 3 * musicalDurationToSeconds d b)"
  using assms
  by (simp add: musicalDurationToSeconds_def base_durations_def replace_TD_def slice_last_def
      baseValues_def or_else_def Let_def)

theorem musicalDurationToSeconds_table_witness:
  "(0::real) < 60
   \<and> musicalDurationToSeconds ''1/4'' 60 = 1
   \<and> musicalDurationToSeconds ''1/1'' 60 = 4
   \<and> musicalDurationToSeconds ''1/8D'' 60 = 15 / 10 * musicalDurationToSeconds ''1/8'' 60
   \<and> musicalDurationToSeconds ''1/32T'' 60 = 2 / 3 * musicalDurationToSeconds ''1/32'' 60"
  using musicalDurationToSeconds_table [of 60] by (simp add: base_durations_def)






section \<open>The random walk on the graph\<close>

lemma random_index_less:
  assumes "0 \<le> u" "u < 1" "0 < n"
  shows "random_index u n < n"
proof -
  have "u * real n < real n" using assms by simp
  then have "\<lfloor>u * real n\<rfloor> < int n" by (simp add: floor_less_iff)
  moreover have "0 \<le> \<lfloor>u * real n\<rfloor>" using assms by simp
  ultimately show ?thesis by (simp add: random_index_def nat_less_iff)
qed

lemma random_index_interval:
  assumes "0 < n" "i < n"
  shows "{u. 0 \<le> u \<and> u < 1 \<and> random_index u n = i} = {real i / real n ..< (real i + 1) / real n}"
proof (rule set_eqI)
  fix u :: real
  have n: "0 < real n" using assms by simp
  have iff: "(real i / real n \<le> u \<and> u < (real i + 1) / real n)
             = (real i \<le> u * real n \<and> u * real n < real i + 1)"
    using n by (simp add: pos_divide_le_eq pos_less_divide_eq)
  show "u \<in> {u. 0 \<le> u \<and> u < 1 \<and> random_index u n = i}
        \<longleftrightarrow> u \<in> {real i / real n ..< (real i + 1) / real n}"
  proof
    assume "u \<in> {u. 0 \<le> u \<and> u < 1 \<and> random_index u n = i}"
    then have u: "0 \<le> u" and r: "nat \<lfloor>u * real n\<rfloor> = i" by (simp_all add: random_index_def)
    have z: "0 \<le> \<lfloor>u * real n\<rfloor>" using u by simp
    from nat_0_le [OF z] have "int i = \<lfloor>u * real n\<rfloor>" by (simp only: r)
    then have "\<lfloor>u * real n\<rfloor> = int i" by (rule sym)
    then have "real i \<le> u * real n \<and> u * real n < real i + 1"
      by (simp add: floor_eq_iff)
    with iff show "u \<in> {real i / real n ..< (real i + 1) / real n}" by simp
  next
    assume "u \<in> {real i / real n ..< (real i + 1) / real n}"
    with iff have b: "real i \<le> u * real n" "u * real n < real i + 1" by simp_all
    then have "\<lfloor>u * real n\<rfloor> = int i" by (simp add: floor_eq_iff)
    then have r: "random_index u n = i" by (simp add: random_index_def)
    have "0 \<le> u * real n" using b by linarith
    then have u0: "0 \<le> u" using n by (simp add: zero_le_mult_iff)
    have "real i + 1 \<le> real n" using assms by simp
    with b have "u * real n < 1 * real n" by linarith
    then have "u < 1" using n by (simp only: mult_less_cancel_right_pos)
    with u0 r show "u \<in> {u. 0 \<le> u \<and> u < 1 \<and> random_index u n = i}" by simp
  qed
qed

text \<open>
  C2, as the code has it. For well-formed graph data with at least one node, the index
  chosen by the constructor is a valid node index, and \<open>advance()\<close> from a valid index
  returns without an error, changes nothing but the index and leaves it valid. When the
  current node has neighbors the new index is one of them; when it has none the new index
  is \<open>floor(U * n)\<close> for the drawn \<open>U\<close> and the number \<open>n\<close> of nodes, which is the
  index \<open>i\<close> exactly for the draws in the interval from \<open>i/n\<close> to \<open>(i+1)/n\<close>: every
  node is chosen on an interval of the same length.
\<close>

theorem advance_index_valid:
  assumes wf: "well_formed g"
    and idx: "currentIndex g < length (nodes g)"
    and u: "0 \<le> u" "u < 1"
  shows "(ns \<noteq> [] \<longrightarrow> currentIndex (new_PcsRelationGraph ns adj u) < length ns)
       \<and> (\<exists>g'. advance u g = Inr g'
           \<and> nodes g' = nodes g \<and> adjacency g' = adjacency g
           \<and> currentIndex g' < length (nodes g')
           \<and> (adjacency g ! currentIndex g \<noteq> []
                \<longrightarrow> currentIndex g' \<in> set (adjacency g ! currentIndex g))
           \<and> (adjacency g ! currentIndex g = []
                \<longrightarrow> currentIndex g' = random_index u (length (nodes g))
                  \<and> (\<forall>i < length (nodes g).
                        {v. 0 \<le> v \<and> v < 1 \<and> random_index v (length (nodes g)) = i}
                        = {real i / real (length (nodes g))
                           ..< (real i + 1) / real (length (nodes g))})))"
proof -
  have ctor: "ns \<noteq> [] \<longrightarrow> currentIndex (new_PcsRelationGraph ns adj u) < length ns"
    using random_index_less [OF u, of "length ns"] by (simp add: new_PcsRelationGraph_def)
  let ?nb = "adjacency g ! currentIndex g"
  have n: "0 < length (nodes g)" using idx by linarith
  have row: "currentIndex g < length (adjacency g)" using wf idx by (simp add: well_formed_def)
  have rows: "\<forall>j \<in> set ?nb. j < length (nodes g)"
    using wf row by (auto simp: well_formed_def list_all_iff)
  show ?thesis
  proof (cases "?nb = []")
    case True
    then show ?thesis
      using ctor n row random_index_less [OF u n] random_index_interval [OF n]
      by (simp add: advance_def)
  next
    case False
    then have len: "0 < length ?nb" by simp
    have "random_index u (length ?nb) < length ?nb" by (rule random_index_less [OF u len])
    then have mem: "?nb ! random_index u (length ?nb) \<in> set ?nb" by (rule nth_mem)
    with rows have "?nb ! random_index u (length ?nb) < length (nodes g)" by blast
    with mem False show ?thesis
      using ctor n row by (simp add: advance_def Let_def)
  qed
qed

lemma example_graph: "pcsGraph example_engine = \<lparr> nodes = example_nodes, adjacency = example_adjacency, currentIndex = 0 \<rparr>"
  by (simp add: example_engine_def setBpm_def new_MusicEngine_def new_PcsRelationGraph_def random_index_def)

theorem advance_index_valid_witness:
  "well_formed (pcsGraph example_engine)
   \<and> currentIndex (pcsGraph example_engine) < length (nodes (pcsGraph example_engine))
   \<and> currentIndex (new_PcsRelationGraph example_nodes example_adjacency (1/2)) = 1
   \<and> adjacency (pcsGraph example_engine) ! 0 = [1]
   \<and> (\<exists>g'. advance (1/2) (pcsGraph example_engine) = Inr g' \<and> currentIndex g' = 1)
   \<and> adjacency (pcsGraph example_engine) ! 2 = []
   \<and> (\<exists>g'. advance (1/2) ((pcsGraph example_engine)\<lparr>currentIndex := 2\<rparr>) = Inr g'
          \<and> currentIndex g' = 1)"
proof -
  let ?g = "pcsGraph example_engine"
  have wf: "well_formed ?g"
    by (simp add: example_graph well_formed_def example_nodes_def example_adjacency_def)
  have idx: "currentIndex ?g < length (nodes ?g)"
    by (simp add: example_graph example_nodes_def)
  have wf2: "well_formed (?g\<lparr>currentIndex := 2\<rparr>)"
    using wf by (simp add: well_formed_def)
  have idx2: "currentIndex (?g\<lparr>currentIndex := 2\<rparr>) < length (nodes (?g\<lparr>currentIndex := 2\<rparr>))"
    by (simp add: example_graph example_nodes_def)
  have ctor: "currentIndex (new_PcsRelationGraph example_nodes example_adjacency (1/2)) = 1"
    by (simp add: new_PcsRelationGraph_def random_index_def example_nodes_def)
  have a: "\<exists>g'. advance (1/2) ?g = Inr g' \<and> currentIndex g' = 1"
    using advance_index_valid [OF wf idx, where u = "1/2" and ns = example_nodes
        and adj = example_adjacency]
    by (auto simp: example_graph example_adjacency_def)
  have b: "\<exists>g'. advance (1/2) (?g\<lparr>currentIndex := 2\<rparr>) = Inr g' \<and> currentIndex g' = 1"
    using advance_index_valid [OF wf2 idx2, where u = "1/2" and ns = example_nodes
        and adj = example_adjacency]
    by (auto simp: example_graph example_adjacency_def example_nodes_def random_index_def)
  show ?thesis
    using wf idx ctor a b by (simp add: example_graph example_adjacency_def)
qed

text \<open>With no node the claim as the spec states it fails: the constructor sets the
  index to 0, \<open>advance()\<close> returns at once, and 0 is not an index into the empty node
  list, so that \<open>current()\<close> is undefined.\<close>

theorem advance_zero_nodes:
  "advance 0 (new_PcsRelationGraph [] [] 0) = Inr (new_PcsRelationGraph [] [] 0)
   \<and> currentIndex (new_PcsRelationGraph [] [] 0) = 0
   \<and> length (nodes (new_PcsRelationGraph [] [] 0)) = 0
   \<and> current (new_PcsRelationGraph [] [] 0) = None"
  by (simp add: advance_def new_PcsRelationGraph_def random_index_def current_def)

section \<open>Triggering a note\<close>

text \<open>
  C7. When the active pitch-class set is empty, \<open>triggerRandomNote\<close> returns normally
  for every trigger time and leaves the whole state as it was: the voices, every field of
  the engine, the random source and the log of backend calls and notifications, so that
  no voice is created and no note-triggered notification is sent.
\<close>

theorem triggerRandomNote_empty:
  assumes "activePitchClasses e = []"
  shows "triggerRandomNote whenTime e = e"
  using assms by (simp add: triggerRandomNote_def)

theorem triggerRandomNote_empty_witness:
  "activePitchClasses example_engine = []
   \<and> triggerRandomNote (1/4) example_engine = example_engine"
proof -
  have "activePitchClasses example_engine = []"
    by (simp add: example_engine_def setBpm_def new_MusicEngine_def)
  then show ?thesis using triggerRandomNote_empty [of example_engine "1/4"] by simp
qed

section \<open>The filter cascade of the delay\<close>

declare create_filters.simps [simp del]











lemma merged_delay [simp]: "delay (merged_params params d sp) = d"
  by (simp add: merged_params_def)











section \<open>The voice pool\<close>



lemma evict_oldest_room:
  "length (voices e) < MAX_VOICES \<Longrightarrow> evict_oldest e = e"
  by (simp add: evict_oldest_def)

lemma evict_oldest_frame:
  "evict_oldest e = e\<lparr>voices := voices (evict_oldest e), log := log (evict_oldest e)\<rparr>"
  by (cases "voices e") (simp_all add: evict_oldest_def emit_def)

lemma evict_oldest_fields [simp]:
  "synthParams (evict_oldest e) = synthParams e" "nextId (evict_oldest e) = nextId e"
  by (subst evict_oldest_frame, simp)+





section \<open>Stopping\<close>

lemma same_update:
  "isPlaying e = False \<Longrightarrow> e\<lparr>isPlaying := False\<rparr> = e"
  "schedulerId e = None \<Longrightarrow> e\<lparr>schedulerId := None\<rparr> = e"
proof -
  have a: "e\<lparr>isPlaying := isPlaying e\<rparr> = e" "e\<lparr>schedulerId := schedulerId e\<rparr> = e"
    by simp_all
  show "isPlaying e = False \<Longrightarrow> e\<lparr>isPlaying := False\<rparr> = e" using a(1) by simp
  show "schedulerId e = None \<Longrightarrow> e\<lparr>schedulerId := None\<rparr> = e" using a(2) by simp
qed

lemma clear_scheduler_eq:
  "clear_scheduler e = e\<lparr>schedulerId := None,
     log := log e @ (case schedulerId e of Some timer \<Rightarrow> [ClearTimeout timer] | None \<Rightarrow> [])\<rparr>"
  by (cases "schedulerId e") (simp_all add: clear_scheduler_def emit_def same_update)

lemma stop_all_voices_eq:
  "stop_all_voices e = e\<lparr>voices := [], log := log e @ concat (map stop_voice (voices e))\<rparr>"
  by (simp add: stop_all_voices_def emit_def)

lemma release_eqs:
  "release_masterGain e = e\<lparr>masterGain := None, log := log e @ release_node (masterGain e)\<rparr>"
  "release_delayNode e = e\<lparr>delayNode := None, log := log e @ release_node (delayNode e)\<rparr>"
  "release_delayFeedbackGain e =
     e\<lparr>delayFeedbackGain := None, log := log e @ release_node (delayFeedbackGain e)\<rparr>"
  "release_delayDryGain e =
     e\<lparr>delayDryGain := None, log := log e @ release_node (delayDryGain e)\<rparr>"
  "release_delayWetGain e =
     e\<lparr>delayWetGain := None, log := log e @ release_node (delayWetGain e)\<rparr>"
  "release_delayInputGain e =
     e\<lparr>delayInputGain := None, log := log e @ release_node (delayInputGain e)\<rparr>"
  "release_delayFilters e =
     e\<lparr>delayFilters := [], log := log e @ map Disconnect (delayFilters e)\<rparr>"
  "release_reverbNode e = e\<lparr>reverbNode := None, log := log e @ release_node (reverbNode e)\<rparr>"
  by (simp_all add: release_masterGain_def release_delayNode_def release_delayFeedbackGain_def
      release_delayDryGain_def release_delayWetGain_def release_delayInputGain_def
      release_delayFilters_def release_reverbNode_def emit_def)

lemma stop_tail:
  "isPlaying e = False \<Longrightarrow> announce_stopped (suspend_context e) = e\<lparr>log := log e @ stop_notices e\<rparr>"
  by (simp add: announce_stopped_def suspend_context_def updateMediaSessionState_def
      stop_notices_def Let_def emit_def split: option.split)

lemma stop_eq:
  "stop e = e\<lparr>isPlaying := False, schedulerId := None, voices := [], masterGain := None,
       delayNode := None, delayFeedbackGain := None, delayDryGain := None,
       delayWetGain := None, delayInputGain := None, delayFilters := [], reverbNode := None,
       log := log e
        @ (case schedulerId e of Some timer \<Rightarrow> [ClearTimeout timer] | None \<Rightarrow> [])
        @ concat (map stop_voice (voices e))
        @ release_node (masterGain e) @ release_node (delayNode e)
        @ release_node (delayFeedbackGain e) @ release_node (delayDryGain e)
        @ release_node (delayWetGain e) @ release_node (delayInputGain e)
        @ map Disconnect (delayFilters e) @ release_node (reverbNode e)
        @ stop_notices e\<rparr>"
  by (simp add: stop_def Let_def clear_scheduler_eq stop_all_voices_eq release_eqs stop_tail
      stop_notices_def)

text \<open>
  C9. \<open>stop()\<close> returns normally from every state. It leaves the engine not playing,
  with no timer, no tracked voice and no effect node (master gain, delay nodes, filter
  stages and reverb all released), having stopped and disconnected every voice and
  disconnected every effect node it held. A second call changes no field of the engine:
  it only repeats the requests of \<open>stop_notices\<close>.
\<close>

theorem stop_idempotent:
  "isPlaying (stop e) = False \<and> schedulerId (stop e) = None \<and> voices (stop e) = []
   \<and> masterGain (stop e) = None \<and> delayNode (stop e) = None
   \<and> delayFeedbackGain (stop e) = None \<and> delayDryGain (stop e) = None
   \<and> delayWetGain (stop e) = None \<and> delayInputGain (stop e) = None
   \<and> delayFilters (stop e) = [] \<and> reverbNode (stop e) = None
   \<and> log (stop e) = log e
        @ (case schedulerId e of Some timer \<Rightarrow> [ClearTimeout timer] | None \<Rightarrow> [])
        @ concat (map stop_voice (voices e))
        @ release_node (masterGain e) @ release_node (delayNode e)
        @ release_node (delayFeedbackGain e) @ release_node (delayDryGain e)
        @ release_node (delayWetGain e) @ release_node (delayInputGain e)
        @ map Disconnect (delayFilters e) @ release_node (reverbNode e)
        @ stop_notices e
   \<and> stop (stop e) = (stop e)\<lparr>log := log (stop e) @ stop_notices e\<rparr>"
proof -
  have "stop (stop e) = (stop e)\<lparr>log := log (stop e) @ stop_notices e\<rparr>"
    by (subst stop_eq [of "stop e"]) (simp add: stop_eq [of e] stop_notices_def release_node_def)
  then show ?thesis by (simp add: stop_eq [of e])
qed

theorem stop_idempotent_witness:
  "stop (stop example_engine) = stop example_engine \<and> isPlaying (stop example_engine) = False"
proof -
  have "stop_notices example_engine = []"
    by (simp add: stop_notices_def example_engine_def setBpm_def new_MusicEngine_def)
  then show ?thesis using stop_idempotent [of example_engine] by simp
qed

section \<open>The scheduler and the start\<close>


lemma cleanupOldVoices_fields [simp]:
  "audioContext (cleanupOldVoices e) = audioContext e" "isPlaying (cleanupOldVoices e) = isPlaying e"
  "pcsGraph (cleanupOldVoices e) = pcsGraph e" "activePitchClasses (cleanupOldVoices e) = activePitchClasses e"
  "nextNoteTime (cleanupOldVoices e) = nextNoteTime e" "nextGraphHopTime (cleanupOldVoices e) = nextGraphHopTime e"
  "bpm (cleanupOldVoices e) = bpm e" "meanNotesPerBar (cleanupOldVoices e) = meanNotesPerBar e"
  "onChordChange (cleanupOldVoices e) = onChordChange e" "onNoteTriggered (cleanupOldVoices e) = onNoteTriggered e"
  "onPlayStateChange (cleanupOldVoices e) = onPlayStateChange e" "mediaSession (cleanupOldVoices e) = mediaSession e"
  "synthParams (cleanupOldVoices e) = synthParams e" "random (cleanupOldVoices e) = random e"
  "masterGain (cleanupOldVoices e) = masterGain e"
  by (simp_all add: cleanupOldVoices_def Let_def split: option.split)

lemma evict_oldest_keeps [simp]:
  "audioContext (evict_oldest e) = audioContext e" "isPlaying (evict_oldest e) = isPlaying e"
  "pcsGraph (evict_oldest e) = pcsGraph e" "activePitchClasses (evict_oldest e) = activePitchClasses e"
  "nextNoteTime (evict_oldest e) = nextNoteTime e" "nextGraphHopTime (evict_oldest e) = nextGraphHopTime e"
  "bpm (evict_oldest e) = bpm e" "meanNotesPerBar (evict_oldest e) = meanNotesPerBar e"
  "onChordChange (evict_oldest e) = onChordChange e" "onNoteTriggered (evict_oldest e) = onNoteTriggered e"
  "onPlayStateChange (evict_oldest e) = onPlayStateChange e" "mediaSession (evict_oldest e) = mediaSession e"
  "synthParams (evict_oldest e) = synthParams e" "random (evict_oldest e) = random e"
  "masterGain (evict_oldest e) = masterGain e"
  by (simp_all add: evict_oldest_def split: list.split)

lemma triggerNote_fields [simp]:
  "audioContext (triggerNote freq when dur e) = audioContext e" "isPlaying (triggerNote freq when dur e) = isPlaying e"
  "pcsGraph (triggerNote freq when dur e) = pcsGraph e" "activePitchClasses (triggerNote freq when dur e) = activePitchClasses e"
  "nextNoteTime (triggerNote freq when dur e) = nextNoteTime e" "nextGraphHopTime (triggerNote freq when dur e) = nextGraphHopTime e"
  "bpm (triggerNote freq when dur e) = bpm e" "meanNotesPerBar (triggerNote freq when dur e) = meanNotesPerBar e"
  "onChordChange (triggerNote freq when dur e) = onChordChange e" "onNoteTriggered (triggerNote freq when dur e) = onNoteTriggered e"
  "onPlayStateChange (triggerNote freq when dur e) = onPlayStateChange e" "mediaSession (triggerNote freq when dur e) = mediaSession e"
  "synthParams (triggerNote freq when dur e) = synthParams e" "random (triggerNote freq when dur e) = random e"
  "masterGain (triggerNote freq when dur e) = masterGain e"
  by (simp_all add: triggerNote_def Let_def split: option.split)

lemma triggerRandomNote_fields [simp]:
  "audioContext (triggerRandomNote whenTime e) = audioContext e" "isPlaying (triggerRandomNote whenTime e) = isPlaying e"
  "pcsGraph (triggerRandomNote whenTime e) = pcsGraph e" "activePitchClasses (triggerRandomNote whenTime e) = activePitchClasses e"
  "nextNoteTime (triggerRandomNote whenTime e) = nextNoteTime e" "nextGraphHopTime (triggerRandomNote whenTime e) = nextGraphHopTime e"
  "bpm (triggerRandomNote whenTime e) = bpm e" "meanNotesPerBar (triggerRandomNote whenTime e) = meanNotesPerBar e"
  "onChordChange (triggerRandomNote whenTime e) = onChordChange e" "onNoteTriggered (triggerRandomNote whenTime e) = onNoteTriggered e"
  "onPlayStateChange (triggerRandomNote whenTime e) = onPlayStateChange e" "mediaSession (triggerRandomNote whenTime e) = mediaSession e"
  "synthParams (triggerRandomNote whenTime e) = synthParams e" "masterGain (triggerRandomNote whenTime e) = masterGain e"
  by (simp_all add: triggerRandomNote_def Let_def consume_def)

lemma scheduleNextNote_fields [simp]:
  "audioContext (scheduleNextNote t e) = audioContext e" "isPlaying (scheduleNextNote t e) = isPlaying e"
  "pcsGraph (scheduleNextNote t e) = pcsGraph e" "activePitchClasses (scheduleNextNote t e) = activePitchClasses e"
  "nextGraphHopTime (scheduleNextNote t e) = nextGraphHopTime e" "bpm (scheduleNextNote t e) = bpm e"
  "meanNotesPerBar (scheduleNextNote t e) = meanNotesPerBar e" "onChordChange (scheduleNextNote t e) = onChordChange e"
  "onNoteTriggered (scheduleNextNote t e) = onNoteTriggered e" "onPlayStateChange (scheduleNextNote t e) = onPlayStateChange e"
  "mediaSession (scheduleNextNote t e) = mediaSession e" "synthParams (scheduleNextNote t e) = synthParams e"
  "masterGain (scheduleNextNote t e) = masterGain e"
  by (simp_all add: scheduleNextNote_def Let_def consume_def)

lemma schedule_next_check_fields [simp]:
  "audioContext (schedule_next_check e) = audioContext e" "isPlaying (schedule_next_check e) = isPlaying e"
  "pcsGraph (schedule_next_check e) = pcsGraph e" "activePitchClasses (schedule_next_check e) = activePitchClasses e"
  "nextNoteTime (schedule_next_check e) = nextNoteTime e" "nextGraphHopTime (schedule_next_check e) = nextGraphHopTime e"
  "bpm (schedule_next_check e) = bpm e" "meanNotesPerBar (schedule_next_check e) = meanNotesPerBar e"
  "onChordChange (schedule_next_check e) = onChordChange e" "onNoteTriggered (schedule_next_check e) = onNoteTriggered e"
  "onPlayStateChange (schedule_next_check e) = onPlayStateChange e" "mediaSession (schedule_next_check e) = mediaSession e"
  "synthParams (schedule_next_check e) = synthParams e" "random (schedule_next_check e) = random e"
  "masterGain (schedule_next_check e) = masterGain e"
  by (simp_all add: schedule_next_check_def)


declare scheduler_loop.simps [simp del]











lemma create_filters_frame:
  "\<exists>n fs l. create_filters ty freq res numFilters i e
               = e\<lparr>nextId := n, delayFilters := fs, log := l\<rparr>"
proof (induction ty freq res numFilters i e rule: create_filters.induct)
  case (1 ty freq res numFilters i e)
  show ?case
  proof (cases "real i < numFilters")
    case False
    then have "create_filters ty freq res numFilters i e = e"
      by (subst create_filters.simps) simp
    moreover have "e = e\<lparr>nextId := nextId e, delayFilters := delayFilters e, log := log e\<rparr>"
      by simp
    ultimately show ?thesis by metis
  next
    case True
    let ?e1 = "emit (new_filter ty freq res (nextId e))
                 (e\<lparr>nextId := Suc (nextId e), delayFilters := delayFilters e @ [nextId e]\<rparr>)"
    have unf: "create_filters ty freq res numFilters i e
                 = create_filters ty freq res numFilters (Suc i) ?e1"
      using True by (subst create_filters.simps) (simp add: Let_def new_filter_def)
    from "1.IH" [OF True refl] obtain n fs l where
      "create_filters ty freq res numFilters (Suc i) ?e1
         = ?e1\<lparr>nextId := n, delayFilters := fs, log := l\<rparr>"
      unfolding new_filter_def by blast
    then have "create_filters ty freq res numFilters i e
                 = e\<lparr>nextId := n, delayFilters := fs, log := l\<rparr>"
      unfolding unf by (simp add: emit_def)
    then show ?thesis by blast
  qed
qed

lemma create_filters_fields [simp]:
  "audioContext (create_filters ty freq res numFilters i e) = audioContext e" "isPlaying (create_filters ty freq res numFilters i e) = isPlaying e"
  "pcsGraph (create_filters ty freq res numFilters i e) = pcsGraph e" "activePitchClasses (create_filters ty freq res numFilters i e) = activePitchClasses e"
  "nextNoteTime (create_filters ty freq res numFilters i e) = nextNoteTime e" "nextGraphHopTime (create_filters ty freq res numFilters i e) = nextGraphHopTime e"
  "bpm (create_filters ty freq res numFilters i e) = bpm e" "meanNotesPerBar (create_filters ty freq res numFilters i e) = meanNotesPerBar e"
  "onChordChange (create_filters ty freq res numFilters i e) = onChordChange e" "onNoteTriggered (create_filters ty freq res numFilters i e) = onNoteTriggered e"
  "onPlayStateChange (create_filters ty freq res numFilters i e) = onPlayStateChange e" "mediaSession (create_filters ty freq res numFilters i e) = mediaSession e"
  "synthParams (create_filters ty freq res numFilters i e) = synthParams e" "random (create_filters ty freq res numFilters i e) = random e"
  "masterGain (create_filters ty freq res numFilters i e) = masterGain e"
  using create_filters_frame [of ty freq res numFilters i e]
  by (auto simp del: create_filters.simps)

lemma createDelayEffect_fields [simp]:
  "audioContext (createDelayEffect e) = audioContext e" "isPlaying (createDelayEffect e) = isPlaying e"
  "pcsGraph (createDelayEffect e) = pcsGraph e" "activePitchClasses (createDelayEffect e) = activePitchClasses e"
  "nextNoteTime (createDelayEffect e) = nextNoteTime e" "nextGraphHopTime (createDelayEffect e) = nextGraphHopTime e"
  "bpm (createDelayEffect e) = bpm e" "meanNotesPerBar (createDelayEffect e) = meanNotesPerBar e"
  "onChordChange (createDelayEffect e) = onChordChange e" "onNoteTriggered (createDelayEffect e) = onNoteTriggered e"
  "onPlayStateChange (createDelayEffect e) = onPlayStateChange e" "mediaSession (createDelayEffect e) = mediaSession e"
  "synthParams (createDelayEffect e) = synthParams e" "random (createDelayEffect e) = random e"
  "masterGain (createDelayEffect e) = masterGain e"
  by (simp_all add: createDelayEffect_def Let_def split: option.split)

lemma createDelayMixNode_fields [simp]:
  "audioContext (snd (createDelayMixNode e)) = audioContext e" "isPlaying (snd (createDelayMixNode e)) = isPlaying e"
  "pcsGraph (snd (createDelayMixNode e)) = pcsGraph e" "activePitchClasses (snd (createDelayMixNode e)) = activePitchClasses e"
  "nextNoteTime (snd (createDelayMixNode e)) = nextNoteTime e" "nextGraphHopTime (snd (createDelayMixNode e)) = nextGraphHopTime e"
  "bpm (snd (createDelayMixNode e)) = bpm e" "meanNotesPerBar (snd (createDelayMixNode e)) = meanNotesPerBar e"
  "onChordChange (snd (createDelayMixNode e)) = onChordChange e" "onNoteTriggered (snd (createDelayMixNode e)) = onNoteTriggered e"
  "onPlayStateChange (snd (createDelayMixNode e)) = onPlayStateChange e" "mediaSession (snd (createDelayMixNode e)) = mediaSession e"
  "synthParams (snd (createDelayMixNode e)) = synthParams e" "random (snd (createDelayMixNode e)) = random e"
  "masterGain (snd (createDelayMixNode e)) = masterGain e"
  by (simp_all add: createDelayMixNode_def Let_def split: option.split)

lemma createSimpleReverb_fields [simp]:
  "audioContext (snd (createSimpleReverb e)) = audioContext e" "isPlaying (snd (createSimpleReverb e)) = isPlaying e"
  "pcsGraph (snd (createSimpleReverb e)) = pcsGraph e" "activePitchClasses (snd (createSimpleReverb e)) = activePitchClasses e"
  "nextNoteTime (snd (createSimpleReverb e)) = nextNoteTime e" "nextGraphHopTime (snd (createSimpleReverb e)) = nextGraphHopTime e"
  "bpm (snd (createSimpleReverb e)) = bpm e" "meanNotesPerBar (snd (createSimpleReverb e)) = meanNotesPerBar e"
  "onChordChange (snd (createSimpleReverb e)) = onChordChange e" "onNoteTriggered (snd (createSimpleReverb e)) = onNoteTriggered e"
  "onPlayStateChange (snd (createSimpleReverb e)) = onPlayStateChange e" "mediaSession (snd (createSimpleReverb e)) = mediaSession e"
  "synthParams (snd (createSimpleReverb e)) = synthParams e" "masterGain (snd (createSimpleReverb e)) = masterGain e"
  by (simp_all add: createSimpleReverb_def Let_def consume_def split: option.split)



lemma build_audio_chain_fields [simp]:
  "audioContext (build_audio_chain e) = audioContext e" "isPlaying (build_audio_chain e) = isPlaying e"
  "pcsGraph (build_audio_chain e) = pcsGraph e" "activePitchClasses (build_audio_chain e) = activePitchClasses e"
  "nextNoteTime (build_audio_chain e) = nextNoteTime e" "nextGraphHopTime (build_audio_chain e) = nextGraphHopTime e"
  "bpm (build_audio_chain e) = bpm e" "meanNotesPerBar (build_audio_chain e) = meanNotesPerBar e"
  "onChordChange (build_audio_chain e) = onChordChange e" "onNoteTriggered (build_audio_chain e) = onNoteTriggered e"
  "onPlayStateChange (build_audio_chain e) = onPlayStateChange e" "mediaSession (build_audio_chain e) = mediaSession e"
  "synthParams (build_audio_chain e) = synthParams e"
  by (simp_all add: build_audio_chain_def Let_def split: option.split)


lemma announce_playing_fields [simp]:
  "audioContext (announce_playing e) = audioContext e" "pcsGraph (announce_playing e) = pcsGraph e"
  "activePitchClasses (announce_playing e) = activePitchClasses e" "nextNoteTime (announce_playing e) = nextNoteTime e"
  "nextGraphHopTime (announce_playing e) = nextGraphHopTime e" "bpm (announce_playing e) = bpm e"
  "meanNotesPerBar (announce_playing e) = meanNotesPerBar e" "onChordChange (announce_playing e) = onChordChange e"
  "onNoteTriggered (announce_playing e) = onNoteTriggered e" "onPlayStateChange (announce_playing e) = onPlayStateChange e"
  "mediaSession (announce_playing e) = mediaSession e" "synthParams (announce_playing e) = synthParams e"
  "random (announce_playing e) = random e" "masterGain (announce_playing e) = masterGain e"
  by (simp_all add: announce_playing_def Let_def updateMediaSessionState_def)

lemma at_time_fields [simp]:
  "isPlaying (at_time t e) = isPlaying e" "pcsGraph (at_time t e) = pcsGraph e"
  "activePitchClasses (at_time t e) = activePitchClasses e" "nextNoteTime (at_time t e) = nextNoteTime e"
  "nextGraphHopTime (at_time t e) = nextGraphHopTime e" "bpm (at_time t e) = bpm e"
  "meanNotesPerBar (at_time t e) = meanNotesPerBar e" "onChordChange (at_time t e) = onChordChange e"
  "onNoteTriggered (at_time t e) = onNoteTriggered e" "onPlayStateChange (at_time t e) = onPlayStateChange e"
  "mediaSession (at_time t e) = mediaSession e" "synthParams (at_time t e) = synthParams e"
  "random (at_time t e) = random e" "masterGain (at_time t e) = masterGain e"
  by (simp_all add: at_time_def)

lemma announce_playing_isPlaying [simp]: "isPlaying (announce_playing e) = True"
  by (simp add: announce_playing_def Let_def updateMediaSessionState_def)










lemma graph_ok_same: "pcsGraph a = pcsGraph b \<Longrightarrow> graph_ok a = graph_ok b"
  by (simp add: graph_ok_def)

lemma unit_draws_same: "random a = random b \<Longrightarrow> unit_draws a = unit_draws b"
  by (simp add: unit_draws_def)

























section \<open>The voice pool in every reachable state\<close>

lemma create_filters_voices [simp]:
  "voices (create_filters ty freq res numFilters i e) = voices e"
  using create_filters_frame [of ty freq res numFilters i e] by auto

lemma recreateDelayFilterChain_voices [simp]:
  "voices (recreateDelayFilterChain ty freq res numFilters e) = voices e"
  by (simp add: recreateDelayFilterChain_def Let_def split: option.split)

lemma updateDelayFilters_voices [simp]:
  "voices (updateDelayFilters ty freq res ord e) = voices e"
  by (simp add: updateDelayFilters_def Let_def split: option.split)

lemma updateDelayParams_voices [simp]: "voices (updateDelayParams e) = voices e"
  by (simp add: updateDelayParams_def Let_def split: option.split)

lemma setSynthParams_voices [simp]: "voices (setSynthParams params e) = voices e"
  by (simp add: setSynthParams_def Let_def split: option.split)

lemma stop_voices [simp]: "voices (stop e) = []"
  by (simp add: stop_eq)

lemma chain_voices [simp]:
  "voices (createDelayEffect e) = voices e"
  "voices (snd (createSimpleReverb e)) = voices e"
  "voices (snd (createDelayMixNode e)) = voices e"
  by (simp_all add: createDelayEffect_def createSimpleReverb_def createDelayMixNode_def
      Let_def consume_def split: option.split)

lemma build_audio_chain_voices [simp]: "voices (build_audio_chain e) = voices e"
  by (simp add: build_audio_chain_def Let_def split: option.split)

lemma small_step_voices [simp]:
  "voices (scheduleNextNote t e) = voices e" "voices (seed_timing e) = voices e"
  "voices (announce_playing e) = voices e" "voices (schedule_next_check e) = voices e"
  by (simp_all add: scheduleNextNote_def seed_timing_def announce_playing_def
      schedule_next_check_def updateMediaSessionState_def Let_def consume_def
      split: option.split)
















end
